theory Spec2Isabelle
  imports Complex_Main "HOL-Library.Sublist" "HOL-Library.List_Lexorder" "HOL-Library.Multiset"
begin

section \<open>Chat controllers of the REST API\<close>

text \<open>
  A shallow embedding of \<^verbatim>\<open>apps/rest-api/src/controllers/chatController.ts\<close>.
  Every controller is a function from the database and the request to the outcome of the
  handler and the database it leaves behind. The outcome is either the response the handler
  sent or the exception that left the handler uncaught.

  Numbers that the source obtains with unary plus (\<^verbatim>\<open>+x\<close>) are \<open>int option\<close>:
  \<open>None\<close> is \<^verbatim>\<open>NaN\<close>, \<open>Some i\<close> the integer \<open>i\<close>. Fractional numbers and
  infinities are not represented. The numbers of the runtime are doubles: the result of an
  addition, subtraction or multiplication of integers is the nearest double, which is the
  exact result when that is below \<open>2^53\<close>.
\<close>

subsection \<open>Data model\<close>

text \<open>A row of the chat table; the columns are those the controllers read and write.\<close>

record chat_row =
  chatId :: int
  userId :: int
  name :: string
  mimeType :: string
  data :: "nat list"
  createdAt :: int
  updatedAt :: int

text \<open>
  The database: the user ids of the user table, the rows of the chat table, and the counter
  from which the store assigns the next \<open>chatId\<close>.
\<close>

record database =
  users :: "int list"
  chats :: "chat_row list"
  nextChatId :: int

datatype json =
    JString string
  | JNumber int
  | JDate int
  | JObject "(string \<times> json) list"
  | JArray "json list"

text \<open>
  A response: the status, the headers that the controller itself sets (those that the
  framework adds, such as the content type of a JSON body, are left out), and the body.
  An error carries its message; the messages of the TypeErrors of the runtime are shortened
  to the part that does not name the property.
\<close>

datatype payload = Json json | Buffer "nat list"

record response =
  status :: nat
  headers :: "(string \<times> string) list"
  body :: payload

datatype error =
    TypeError string
  | JwtError string
  | DatabaseError string

datatype outcome = Sent response | Uncaught error

text \<open>A parsed query-string value: a string, or an array or object (\<^verbatim>\<open>typeof\<close> is not string).\<close>

datatype qvalue = QString string | QOther

record request =
  user_auth_userId :: "int option"
  protocol :: string
  host :: string
  baseUrl :: string
  path :: string
  originalUrl :: string
  chat_id :: "int option"
  token :: string
  perPage :: "int option"
  page :: "int option"
  sortBy :: "qvalue option"
  expiresIn :: "qvalue option"
  base64 :: string
  body_name :: string

text \<open>
  The parts of the process that are not code of the controllers: the signing secret, the
  \<^verbatim>\<open>jsonwebtoken\<close> library (\<open>jwt_sign\<close> returns \<open>None\<close> where \<^verbatim>\<open>jwt.sign\<close>
  throws, \<open>jwt_verify\<close> returns the message of the error where \<^verbatim>\<open>jwt.verify\<close> throws
  and the \<open>chatId\<close> of the decoded payload, typed \<^verbatim>\<open>IJwtChatPayload\<close>, otherwise),
  the base64 decoder of \<^verbatim>\<open>Buffer.from\<close>, the value that \<^verbatim>\<open>res.set\<close> of the
  framework stores for a \<open>Content-Type\<close> (it appends a charset to the types that have
  one), and the clock of the store.
\<close>

record environment =
  JWT_SECRET :: string
  jwt_sign :: "int option \<Rightarrow> string \<Rightarrow> string \<Rightarrow> string option"
  jwt_verify :: "string \<Rightarrow> string \<Rightarrow> string + int"
  buffer_from_base64 :: "string \<Rightarrow> nat list"
  content_type :: "string \<Rightarrow> string"
  clock :: int

subsection \<open>Numbers\<close>

text \<open>The number of binary digits of a positive integer.\<close>

function bit_length :: "int \<Rightarrow> nat" where
  "bit_length n = (if n \<le> 0 then 0 else Suc (bit_length (n div 2)))"
  by pat_completeness auto
termination
  by (relation "measure nat") auto

declare bit_length.simps [simp del]

text \<open>
  The double nearest to an integer, ties to the even significand: an integer up to
  \<open>2^53\<close> is a double; a larger one keeps its 53 leading bits, rounded.
\<close>

definition round_double :: "int \<Rightarrow> int" where
  "round_double i =
     (if \<bar>i\<bar> \<le> 2 ^ 53 then i
      else let e = bit_length \<bar>i\<bar> - 53;
               q = \<bar>i\<bar> div 2 ^ e;
               r = \<bar>i\<bar> mod 2 ^ e;
               m = (if 2 ^ e < 2 * r \<or> (2 * r = 2 ^ e \<and> odd q) then q + 1 else q)
           in sgn i * (m * 2 ^ e))"

subsection \<open>Strings\<close>

definition digit_char :: "nat \<Rightarrow> char" where
  "digit_char d = ''0123456789'' ! d"

fun show_nat :: "nat \<Rightarrow> string" where
  "show_nat n = (if n < 10 then [digit_char n] else show_nat (n div 10) @ [digit_char (n mod 10)])"

declare show_nat.simps [simp del]

text \<open>The decimal text of an integer, as a template literal prints it.\<close>

definition show_int :: "int \<Rightarrow> string" where
  "show_int i = (if i < 0 then CHR ''-'' # show_nat (nat (- i)) else show_nat (nat i))"

text \<open>\<^verbatim>\<open>Array.prototype.join\<close>.\<close>

fun join :: "string \<Rightarrow> string list \<Rightarrow> string" where
  "join sep [] = []"
| "join sep [x] = x"
| "join sep (x # y # ys) = x @ sep @ join sep (y # ys)"

text \<open>\<^verbatim>\<open>String.prototype.split\<close> with a one-character separator.\<close>

fun split_on :: "char \<Rightarrow> string \<Rightarrow> string list" where
  "split_on d [] = [[]]"
| "split_on d (c # cs) =
     (if c = d then [] # split_on d cs
      else (case split_on d cs of [] \<Rightarrow> [[c]] | x # xs \<Rightarrow> (c # x) # xs))"

text \<open>\<^verbatim>\<open>xs[i]\<close> of an array: \<open>None\<close> is \<^verbatim>\<open>undefined\<close>.\<close>

fun index :: "'a list \<Rightarrow> nat \<Rightarrow> 'a option" where
  "index [] i = None"
| "index (x # xs) 0 = Some x"
| "index (x # xs) (Suc i) = index xs i"

subsection \<open>The MIME pattern\<close>

text \<open>
  \<^verbatim>\<open>/[^:]\w+\/[\w-+\d.]+(?=;|,)/\<close>: one character other than a colon, one or more word
  characters, a slash, one or more characters of the class (word characters, minus, plus,
  dot), and then, not consumed, a semicolon or a comma. The slash is not a word character and
  neither the semicolon nor the comma is in the class, so at a given start only the longest
  run of each repetition can be followed by what the pattern asks next: backtracking into a
  shorter run never succeeds, and \<open>takeWhile\<close> computes the match.
\<close>

definition word_char :: "char \<Rightarrow> bool" where
  "word_char c =
     (c \<in> set ''abcdefghijklmnopqrstuvwxyzABCDEFGHIJKLMNOPQRSTUVWXYZ0123456789_'')"

definition class_char :: "char \<Rightarrow> bool" where
  "class_char c = (word_char c \<or> c \<in> set ''-+.'')"

text \<open>The match of the pattern that starts at the first character of the string.\<close>

fun match_here :: "string \<Rightarrow> string option" where
  "match_here [] = None"
| "match_here (c # rest) =
     (if c = CHR '':'' then None
      else let w = takeWhile word_char rest in
        if w = [] then None
        else (case dropWhile word_char rest of
            [] \<Rightarrow> None
          | d # rest' \<Rightarrow>
              if d \<noteq> CHR ''/'' then None
              else let m = takeWhile class_char rest' in
                if m = [] then None
                else (case dropWhile class_char rest' of
                    [] \<Rightarrow> None
                  | e # _ \<Rightarrow>
                      if e = CHR '';'' \<or> e = CHR '','' then Some (c # w @ ''/'' @ m)
                      else None)))"

text \<open>
  \<^verbatim>\<open>s.match(pattern)\<close>: the leftmost match, \<open>None\<close> for \<^verbatim>\<open>null\<close>.
\<close>

fun match_mime :: "string \<Rightarrow> string option" where
  "match_mime [] = None"
| "match_mime (c # cs) =
     (case match_here (c # cs) of Some m \<Rightarrow> Some m | None \<Rightarrow> match_mime cs)"

subsection \<open>Responses\<close>

text \<open>\<^verbatim>\<open>res.status(code).json({ message: msg })\<close>.\<close>

definition message_body :: "nat \<Rightarrow> string \<Rightarrow> response" where
  "message_body code msg =
     \<lparr>status = code, headers = [], body = Json (JObject [(''message'', JString msg)])\<rparr>"

definition message_response :: "nat \<Rightarrow> string \<Rightarrow> outcome" where
  "message_response code msg = Sent (message_body code msg)"

text \<open>
  The metadata object of the owner-scoped endpoints,
  \<^verbatim>\<open>{ blobUrl, chatId, userId, name, createdAt, updatedAt }\<close>, and that of the
  token-scoped endpoint, \<^verbatim>\<open>{ blobUrl, chatId, userId, createdAt, updatedAt }\<close>.
\<close>

text \<open>
  The two ways the controllers build \<open>blobUrl\<close>: from the path and the chat id, and from
  the URL of the request.
\<close>

definition path_blobUrl :: "request \<Rightarrow> int \<Rightarrow> string" where
  "path_blobUrl req cid =
     protocol req @ ''://'' @ host req @ baseUrl req @ path req @ show_int cid @ ''/blob''"

definition url_blobUrl :: "request \<Rightarrow> string" where
  "url_blobUrl req = protocol req @ ''://'' @ host req @ originalUrl req @ ''/blob''"

definition chat_json :: "string \<Rightarrow> chat_row \<Rightarrow> json" where
  "chat_json url chat =
     JObject [(''blobUrl'', JString url), (''chatId'', JNumber (chatId chat)),
              (''userId'', JNumber (userId chat)), (''name'', JString (name chat)),
              (''createdAt'', JDate (createdAt chat)), (''updatedAt'', JDate (updatedAt chat))]"

definition shared_chat_json :: "string \<Rightarrow> chat_row \<Rightarrow> json" where
  "shared_chat_json url chat =
     JObject [(''blobUrl'', JString url), (''chatId'', JNumber (chatId chat)),
              (''userId'', JNumber (userId chat)),
              (''createdAt'', JDate (createdAt chat)), (''updatedAt'', JDate (updatedAt chat))]"

definition error_message :: "error \<Rightarrow> string" where
  "error_message e = (case e of TypeError m \<Rightarrow> m | JwtError m \<Rightarrow> m | DatabaseError m \<Rightarrow> m)"

text \<open>The keys of a JSON object, in order; a value that is no object has none.\<close>

fun json_keys :: "json \<Rightarrow> string list" where
  "json_keys (JObject kvs) = map fst kvs"
| "json_keys _ = []"

subsection \<open>The store\<close>

text \<open>\<^verbatim>\<open>User.findOne({ where: { userId: userID } })\<close>: \<open>None\<close> is \<^verbatim>\<open>null\<close>.\<close>

definition User_findOne :: "database \<Rightarrow> int \<Rightarrow> int option" where
  "User_findOne db userID = List.find (\<lambda>u. u = userID) (users db)"

text \<open>
  \<^verbatim>\<open>Chat.findOne({ where: { chatId: chatId, userId: userID } })\<close>: \<open>Inr None\<close> is
  \<^verbatim>\<open>null\<close>. A \<open>chatId\<close> that is \<^verbatim>\<open>NaN\<close> is written into the query as it is,
  and the query fails.
\<close>

definition Chat_findOne :: "database \<Rightarrow> int option \<Rightarrow> int \<Rightarrow> error + chat_row option" where
  "Chat_findOne db cid userID =
     (case cid of
        None \<Rightarrow> Inl (DatabaseError ''NaN in query'')
      | Some i \<Rightarrow> Inr (List.find (\<lambda>c. chatId c = i \<and> userId c = userID) (chats db)))"

text \<open>\<^verbatim>\<open>Chat.findByPk(chatId)\<close>.\<close>

definition Chat_findByPk :: "database \<Rightarrow> int \<Rightarrow> chat_row option" where
  "Chat_findByPk db cid = List.find (\<lambda>c. chatId c = cid) (chats db)"

text \<open>
  Modelled from the spec: \<^verbatim>\<open>user.createChat\<close> belongs to the models, which are not
  among the sources. The store inserts a new row, assigns its \<open>chatId\<close> and sets
  \<open>createdAt\<close> and \<open>updatedAt\<close> to now; the owner is the user the method is called on.
\<close>

definition createChat ::
  "environment \<Rightarrow> database \<Rightarrow> int \<Rightarrow> string \<Rightarrow> nat list \<Rightarrow> string \<Rightarrow> chat_row \<times> database" where
  "createChat env db userID mime bytes nm =
     (let chat = \<lparr>chatId = nextChatId db, userId = userID, name = nm, mimeType = mime,
                  data = bytes, createdAt = clock env, updatedAt = clock env\<rparr>
      in (chat, db\<lparr>chats := chats db @ [chat], nextChatId := nextChatId db + 1\<rparr>))"

text \<open>
  \<^verbatim>\<open>Chat.update({ name: name }, { where: { userId: userID, chatId: chatId } })\<close>: the
  number of rows changed and the database after the update; with a \<open>chatId\<close> that is
  \<^verbatim>\<open>NaN\<close> the query fails. Modelled from the spec: the update refreshes \<open>updatedAt\<close>.
\<close>

definition Chat_update ::
  "environment \<Rightarrow> database \<Rightarrow> string \<Rightarrow> int \<Rightarrow> int option \<Rightarrow> error + nat \<times> database" where
  "Chat_update env db nm userID cid =
     (case cid of
        None \<Rightarrow> Inl (DatabaseError ''NaN in query'')
      | Some i \<Rightarrow>
          (let hit = (\<lambda>c. userId c = userID \<and> chatId c = i)
           in Inr (length (filter hit (chats db)),
                   db\<lparr>chats := map (\<lambda>c. if hit c then c\<lparr>name := nm, updatedAt := clock env\<rparr>
                                          else c) (chats db)\<rparr>)))"

text \<open>\<^verbatim>\<open>chat.destroy()\<close> deletes the row whose primary key is that of the instance.\<close>

definition destroy :: "database \<Rightarrow> chat_row \<Rightarrow> database" where
  "destroy db chat = db\<lparr>chats := filter (\<lambda>c. chatId c \<noteq> chatId chat) (chats db)\<rparr>"

text \<open>
  A promise that has not been awaited. Modelled from the spec: \<^verbatim>\<open>user.hasChat\<close> is the
  association method of the models, which are not among the sources; as every query of the
  store it is asynchronous, and resolves to whether the chat exists and belongs to the user
  (\<open>Inr\<close>), or is rejected with the error of the query (\<open>Inl\<close>).
\<close>

datatype 'a promise = Promise "error + 'a"

definition hasChat :: "database \<Rightarrow> int \<Rightarrow> int option \<Rightarrow> bool promise" where
  "hasChat db userID cid =
     Promise (case cid of
        None \<Rightarrow> Inl (DatabaseError ''NaN in query'')
      | Some i \<Rightarrow> Inr (list_ex (\<lambda>c. chatId c = i \<and> userId c = userID) (chats db)))"

text \<open>\<^verbatim>\<open>!p\<close> on a promise: a promise is an object, and every object is truthy.\<close>

fun not_promise :: "'a promise \<Rightarrow> bool" where
  "not_promise (Promise _) = False"

text \<open>
  \<^verbatim>\<open>chat[0]\<close> on what \<^verbatim>\<open>findOne\<close> returned: a model instance, not an array, with
  no property \<^verbatim>\<open>0\<close>. The result is \<^verbatim>\<open>undefined\<close> (\<open>None\<close>).
\<close>

definition instance_index :: "chat_row \<Rightarrow> nat \<Rightarrow> chat_row option" where
  "instance_index chat i = None"

subsection \<open>The queries of the list endpoint\<close>

text \<open>\<^verbatim>\<open>WHERE userId = ?\<close>: the rows of the user, in the order of the table.\<close>

definition user_chats :: "database \<Rightarrow> int \<Rightarrow> chat_row list" where
  "user_chats db userID = filter (\<lambda>c. userId c = userID) (chats db)"

text \<open>
  \<^verbatim>\<open>ORDER BY\<close> on one of the columns the controller lets through. The order of the
  \<open>name\<close> column is that of the collation of the database, a parameter: \<open>collate\<close> maps a
  name to its sort key. SQL leaves the order of rows with equal keys to the engine; here
  they stay in the order of the table, in both directions.
\<close>

datatype ordering = Ascending string | Descending string

definition order_by ::
  "(string \<Rightarrow> 'k::linorder) \<Rightarrow> ordering \<Rightarrow> chat_row list \<Rightarrow> error + chat_row list" where
  "order_by collate ord rows =
     (let sorted_by = (\<lambda>col rs.
        if col = ''name'' then Inr (sort_key (\<lambda>c. collate (name c)) rs)
        else if col = ''createdAt'' then Inr (sort_key createdAt rs)
        else if col = ''updatedAt'' then Inr (sort_key updatedAt rs)
        else Inl (DatabaseError ''Unknown column''))
      in case ord of
           Ascending col \<Rightarrow> sorted_by col rows
         | Descending col \<Rightarrow> map_sum id rev (sorted_by col (rev rows)))"

text \<open>
  \<^verbatim>\<open>LIMIT row_count OFFSET offset\<close>, with the two numbers as the template literal
  writes them into the query. From \<open>10^21\<close> on a number is written in exponent notation
  (\<^verbatim>\<open>1e+21\<close>), which the clause does not accept, and the query fails. A negative limit
  or offset is rejected, as MySQL does; the controller passes none when \<open>page\<close> and
  \<open>perPage\<close> are positive.
\<close>

definition limit_offset :: "int \<Rightarrow> int \<Rightarrow> 'a list \<Rightarrow> error + 'a list" where
  "limit_offset row_count offset rows =
     (if row_count < 0 \<or> offset < 0 \<or> 10 ^ 21 \<le> row_count \<or> 10 ^ 21 \<le> offset
      then Inl (DatabaseError ''Syntax error'')
      else Inr (take (nat row_count) (drop (nat offset) rows)))"

text \<open>
  \<^verbatim>\<open>ChatQuery\<close>: the rows of the user, ordered by \<open>sortBy\<close> (descending for
  \<open>updatedAt\<close>), \<open>perPage\<close> of them after the first \<open>perPage * (page - 1)\<close>, the offset
  being computed in doubles.
\<close>

definition ChatQuery ::
  "(string \<Rightarrow> 'k::linorder) \<Rightarrow> database \<Rightarrow> int \<Rightarrow> string \<Rightarrow> int \<Rightarrow> int \<Rightarrow> error + chat_row list" where
  "ChatQuery collate db userID sort_col per_page pg =
     (case order_by collate
             (if sort_col = ''updatedAt'' then Descending sort_col else Ascending sort_col)
             (user_chats db userID) of
        Inl e \<Rightarrow> Inl e
      | Inr rows \<Rightarrow>
          limit_offset per_page (round_double (per_page * round_double (pg - 1))) rows)"

text \<open>\<^verbatim>\<open>countQuery\<close>: the number of rows of the user.\<close>

definition countQuery :: "database \<Rightarrow> int \<Rightarrow> int" where
  "countQuery db userID = int (length (user_chats db userID))"

text \<open>
  \<^verbatim>\<open>Math.ceil(total / perPage)\<close>, in integer arithmetic. For a total and a
  \<open>perPage\<close> below \<open>2^53\<close> this is what the doubles give: their quotient rounds to an
  integer only when the exact quotient is one.
\<close>

definition totalPages :: "int \<Rightarrow> int \<Rightarrow> int" where
  "totalPages n_total per_page = - ((- n_total) div per_page)"

text \<open>
  The two entries of the \<open>Link\<close> header and the list \<open>links\<close> of those that are pushed.
  The numbers printed are below \<open>10^21\<close>, or the query has failed before.
\<close>

definition topMostUrl :: "request \<Rightarrow> string" where
  "topMostUrl req = protocol req @ ''://'' @ host req @ originalUrl req"

definition prev_link :: "request \<Rightarrow> int \<Rightarrow> int \<Rightarrow> string" where
  \<open>prev_link req pg per_page =
     ''<'' @ topMostUrl req @ ''?page='' @ show_int (round_double (pg - 1)) @ ''&per_page=''
       @ show_int per_page @ ''>; rel="prev"''\<close>

definition next_link :: "request \<Rightarrow> int \<Rightarrow> int \<Rightarrow> string" where
  \<open>next_link req pg per_page =
     ''<'' @ topMostUrl req @ ''?page='' @ show_int (round_double (pg + 1)) @ ''&per_page=''
       @ show_int per_page @ ''>; rel="next"''\<close>

definition links :: "request \<Rightarrow> int \<Rightarrow> int \<Rightarrow> int \<Rightarrow> string list" where
  "links req pg per_page n_total =
     (if pg > 1 then [prev_link req pg per_page] else [])
   @ (if pg < totalPages n_total per_page then [next_link req pg per_page] else [])"

subsection \<open>The controllers\<close>

text \<open>
  Every owner-scoped controller starts with the same two checks. \<^verbatim>\<open>!userID\<close> holds
  when \<open>userID\<close> is \<^verbatim>\<open>NaN\<close> (\<open>None\<close>) or zero.
\<close>

definition postChatController :: "environment \<Rightarrow> database \<Rightarrow> request \<Rightarrow> outcome \<times> database" where
  "postChatController env db req =
     (case user_auth_userId req of
        None \<Rightarrow> (message_response 403 ''Not a valid token'', db)
      | Some userID \<Rightarrow>
          if userID = 0 then (message_response 403 ''Not a valid token'', db)
          else (case User_findOne db userID of
              None \<Rightarrow> (message_response 404 ''User not found'', db)
            | Some user \<Rightarrow>
                (case match_mime (base64 req) of
                   None \<Rightarrow> (Uncaught (TypeError ''Cannot read properties of null''), db)
                 | Some mime \<Rightarrow>
                     (case index (split_on CHR '','' (base64 req)) 1 of
                        None \<Rightarrow> (Uncaught (TypeError ''The first argument must be of type string''), db)
                      | Some b64 \<Rightarrow>
                          (let (chat, db') = createChat env db user mime
                                               (buffer_from_base64 env b64) (body_name req)
                           in (Sent \<lparr>status = 200, headers = [],
                                 body = Json (chat_json (path_blobUrl req (chatId chat)) chat)\<rparr>,
                               db'))))))"

definition getAllChatsController ::
  "(string \<Rightarrow> 'k::linorder) \<Rightarrow> database \<Rightarrow> request \<Rightarrow> outcome \<times> database" where
  "getAllChatsController collate db req =
     (case user_auth_userId req of
        None \<Rightarrow> (message_response 403 ''Not a valid token'', db)
      | Some userID \<Rightarrow>
          if userID = 0 then (message_response 403 ''Not a valid token'', db)
          else (case User_findOne db userID of
              None \<Rightarrow> (message_response 404 ''User not found'', db)
            | Some user \<Rightarrow>
                (case (perPage req, page req) of
                   (Some per_page, Some pg) \<Rightarrow>
                     if per_page = 0 \<or> pg = 0
                     then (message_response 400 ''Invalid perPage or page'', db)
                     else (case sortBy req of
                         Some (QString sort_col) \<Rightarrow>
                           if sort_col \<notin> set [''createdAt'', ''name'', ''updatedAt'']
                           then (message_response 400
                                   ''shortBy Should be name, createdAt or updatedAt'', db)
                           else (case ChatQuery collate db userID sort_col per_page pg of
                               Inl e \<Rightarrow> (Uncaught e, db)
                             | Inr results \<Rightarrow>
                                 (let chats = map (\<lambda>chat.
                                        chat_json (path_blobUrl req (chatId chat)) chat) results;
                                      n_total = countQuery db userID
                                  in (Sent \<lparr>status = 200,
                                        headers = [(''Link'',
                                          join '', '' (links req pg per_page n_total))],
                                        body = Json (JArray chats)\<rparr>, db)))
                       | _ \<Rightarrow> (message_response 400
                                 ''shortBy Should be name, createdAt or updatedAt'', db))
                 | _ \<Rightarrow> (message_response 400 ''Invalid perPage or page'', db))))"

definition getChatByIdController :: "database \<Rightarrow> request \<Rightarrow> outcome \<times> database" where
  "getChatByIdController db req =
     (case user_auth_userId req of
        None \<Rightarrow> (message_response 403 ''Not a valid token'', db)
      | Some userID \<Rightarrow>
          if userID = 0 then (message_response 403 ''Not a valid token'', db)
          else (case User_findOne db userID of
              None \<Rightarrow> (message_response 404 ''User not found'', db)
            | Some user \<Rightarrow>
                (case Chat_findOne db (chat_id req) userID of
                   Inl e \<Rightarrow> (Uncaught e, db)
                 | Inr None \<Rightarrow> (message_response 404 ''Chat not found'', db)
                 | Inr (Some chat) \<Rightarrow>
                     (case instance_index chat 0 of
                        None \<Rightarrow> (Uncaught (TypeError ''Cannot read properties of undefined''), db)
                      | Some chat0 \<Rightarrow>
                          (Sent \<lparr>status = 200, headers = [],
                             body = Json (chat_json (url_blobUrl req) chat0)\<rparr>, db)))))"

definition patchChatByIdController ::
  "environment \<Rightarrow> database \<Rightarrow> request \<Rightarrow> outcome \<times> database" where
  "patchChatByIdController env db req =
     (case user_auth_userId req of
        None \<Rightarrow> (message_response 403 ''Not a valid token'', db)
      | Some userID \<Rightarrow>
          if userID = 0 then (message_response 403 ''Not a valid token'', db)
          else (case User_findOne db userID of
              None \<Rightarrow> (message_response 404 ''User not found'', db)
            | Some user \<Rightarrow>
                (case Chat_update env db (body_name req) userID (chat_id req) of
                   Inl e \<Rightarrow> (Uncaught e, db)
                 | Inr (n_changed, db') \<Rightarrow>
                     if n_changed \<noteq> 1 then (message_response 404 ''Chat not found'', db')
                     else (case Chat_findOne db' (chat_id req) userID of
                         Inl e \<Rightarrow> (Uncaught e, db')
                       | Inr None \<Rightarrow>
                           (Uncaught (TypeError ''Cannot read properties of null''), db')
                       | Inr (Some chat) \<Rightarrow>
                           (Sent \<lparr>status = 200, headers = [],
                              body = Json (chat_json (url_blobUrl req) chat)\<rparr>, db')))))"

definition deleteChatByIdController :: "database \<Rightarrow> request \<Rightarrow> outcome \<times> database" where
  "deleteChatByIdController db req =
     (case user_auth_userId req of
        None \<Rightarrow> (message_response 403 ''Not a valid token'', db)
      | Some userID \<Rightarrow>
          if userID = 0 then (message_response 403 ''Not a valid token'', db)
          else (case User_findOne db userID of
              None \<Rightarrow> (message_response 404 ''User not found'', db)
            | Some user \<Rightarrow>
                (case Chat_findOne db (chat_id req) userID of
                   Inl e \<Rightarrow> (Uncaught e, db)
                 | Inr None \<Rightarrow> (message_response 404 ''Chat not found'', db)
                 | Inr (Some chat) \<Rightarrow> (message_response 200 ''ok'', destroy db chat))))"

definition getChatBlobController :: "database \<Rightarrow> request \<Rightarrow> outcome \<times> database" where
  "getChatBlobController db req =
     (case user_auth_userId req of
        None \<Rightarrow> (message_response 403 ''Not a valid token'', db)
      | Some userID \<Rightarrow>
          if userID = 0 then (message_response 403 ''Not a valid token'', db)
          else (case User_findOne db userID of
              None \<Rightarrow> (message_response 404 ''User not found'', db)
            | Some user \<Rightarrow>
                (case Chat_findOne db (chat_id req) userID of
                   Inl e \<Rightarrow> (Uncaught e, db)
                 | Inr None \<Rightarrow> (message_response 404 ''Chat not found'', db)
                 | Inr (Some chat) \<Rightarrow>
                     (Sent \<lparr>status = 200, headers = [(''Content-Type'', mimeType chat)],
                        body = Buffer (data chat)\<rparr>, db))))"

text \<open>
  \<^verbatim>\<open>req.query.expiresIn ? req.query.expiresIn : '30d'\<close>: an absent value and the empty
  string are falsy.
\<close>

definition expiry_of :: "qvalue option \<Rightarrow> qvalue" where
  "expiry_of v =
     (case v of
        None \<Rightarrow> QString ''30d''
      | Some (QString s) \<Rightarrow> if s = [] then QString ''30d'' else QString s
      | Some QOther \<Rightarrow> QOther)"

definition getTokenByIdController ::
  "environment \<Rightarrow> database \<Rightarrow> request \<Rightarrow> outcome \<times> database" where
  "getTokenByIdController env db req =
     (case user_auth_userId req of
        None \<Rightarrow> (message_response 403 ''Not a valid token'', db)
      | Some userID \<Rightarrow>
          if userID = 0 then (message_response 403 ''Not a valid token'', db)
          else (case User_findOne db userID of
              None \<Rightarrow> (message_response 404 ''User not found'', db)
            | Some user \<Rightarrow>
                if not_promise (hasChat db user (chat_id req))
                then (message_response 404 ''Chat not found'', db)
                else (case expiry_of (expiresIn req) of
                    QOther \<Rightarrow> (message_response 400 ''expiresIn Should be string'', db)
                  | QString expiry \<Rightarrow>
                      (case jwt_sign env (chat_id req) (JWT_SECRET env) expiry of
                         Some tok \<Rightarrow>
                           (Sent \<lparr>status = 200, headers = [(''chat-token'', tok)],
                              body = Json (JObject [(''message'', JString ''ok'')])\<rparr>, db)
                       | None \<Rightarrow> (message_response 400 ''Invalid expiresIn'', db)))))"

text \<open>
  The body of the \<^verbatim>\<open>try\<close> block of the token-scoped metadata endpoint: \<open>Inl\<close> is the
  error thrown inside it, \<open>Inr\<close> the response sent inside it. The query selects by
  \<open>chatId\<close> alone.
\<close>

definition getChatWithJwt_try :: "environment \<Rightarrow> database \<Rightarrow> request \<Rightarrow> error + response" where
  "getChatWithJwt_try env db req =
     (case jwt_verify env (token req) (JWT_SECRET env) of
        Inl msg \<Rightarrow> Inl (JwtError msg)
      | Inr decoded \<Rightarrow>
          (case filter (\<lambda>c. chatId c = decoded) (chats db) of
             [] \<Rightarrow> Inr (message_body 404 ''Chat not found'')
           | chat0 # _ \<Rightarrow>
               Inr \<lparr>status = 200, headers = [],
                    body = Json (shared_chat_json (url_blobUrl req) chat0)\<rparr>))"

definition getChatWithJwtController ::
  "environment \<Rightarrow> database \<Rightarrow> request \<Rightarrow> outcome \<times> database" where
  "getChatWithJwtController env db req =
     (case getChatWithJwt_try env db req of
        Inl e \<Rightarrow> (message_response 410 (error_message e), db)
      | Inr r \<Rightarrow> (Sent r, db))"

text \<open>
  The body of the \<^verbatim>\<open>try\<close> block of the token-scoped blob endpoint. Reading
  \<^verbatim>\<open>chat.mimeType\<close> when \<^verbatim>\<open>findByPk\<close> returned \<^verbatim>\<open>null\<close> throws. The
  header is set with \<^verbatim>\<open>res.set\<close> of the framework, where the owner-scoped blob
  endpoint uses \<^verbatim>\<open>res.setHeader\<close>, which stores the value as it is.
\<close>

definition getBlobWithJwt_try :: "environment \<Rightarrow> database \<Rightarrow> request \<Rightarrow> error + response" where
  "getBlobWithJwt_try env db req =
     (case jwt_verify env (token req) (JWT_SECRET env) of
        Inl msg \<Rightarrow> Inl (JwtError msg)
      | Inr decoded \<Rightarrow>
          (case Chat_findByPk db decoded of
             None \<Rightarrow> Inl (TypeError ''Cannot read properties of null'')
           | Some chat \<Rightarrow>
               Inr \<lparr>status = 200,
                    headers = [(''Content-Type'', content_type env (mimeType chat))],
                    body = Buffer (data chat)\<rparr>))"

definition getBlobWithJwtController ::
  "environment \<Rightarrow> database \<Rightarrow> request \<Rightarrow> outcome \<times> database" where
  "getBlobWithJwtController env db req =
     (case getBlobWithJwt_try env db req of
        Inl e \<Rightarrow> (message_response 410 (error_message e), db)
      | Inr r \<Rightarrow> (Sent r, db))"

subsection \<open>A sample installation\<close>

text \<open>
  A concrete environment, database and request, on which the theorems below are evaluated.
  The sample library signs chat \<open>7\<close> as \<open>signed7\<close> and chat \<open>99\<close> as \<open>signed99\<close>, and
  rejects the expiry \<open>never\<close>; the sample collation compares names byte by byte.
\<close>

definition sample_sign :: "int option \<Rightarrow> string \<Rightarrow> string \<Rightarrow> string option" where
  "sample_sign cid secret expiry =
     (if expiry = ''never'' then None
      else if cid = Some 7 then Some ''signed7'' else Some ''signed99'')"

definition sample_verify :: "string \<Rightarrow> string \<Rightarrow> string + int" where
  "sample_verify tok secret =
     (if tok = ''signed7'' then Inr 7
      else if tok = ''signed99'' then Inr 99
      else Inl ''jwt malformed'')"

definition sample_decode :: "string \<Rightarrow> nat list" where
  "sample_decode b64 = map of_char b64"

definition sample_content_type :: "string \<Rightarrow> string" where
  "sample_content_type mime =
     (if take 5 mime = ''text/'' then mime @ ''; charset=utf-8'' else mime)"

definition sample_collate :: "string \<Rightarrow> nat list" where
  "sample_collate nm = map of_char nm"

definition sample_env :: environment where
  "sample_env =
     \<lparr>JWT_SECRET = ''secret'', jwt_sign = sample_sign, jwt_verify = sample_verify,
      buffer_from_base64 = sample_decode, content_type = sample_content_type, clock = 50\<rparr>"

definition sample_db :: database where
  "sample_db =
     \<lparr>users = [1, 2],
      chats =
        [\<lparr>chatId = 7, userId = 1, name = ''beta'', mimeType = ''text/plain'', data = [104, 105],
          createdAt = 30, updatedAt = 31\<rparr>,
         \<lparr>chatId = 8, userId = 1, name = ''alpha'', mimeType = ''text/plain'', data = [],
          createdAt = 20, updatedAt = 40\<rparr>,
         \<lparr>chatId = 9, userId = 1, name = ''gamma'', mimeType = ''image/png'', data = [1],
          createdAt = 10, updatedAt = 35\<rparr>,
         \<lparr>chatId = 10, userId = 2, name = ''delta'', mimeType = ''text/plain'', data = [],
          createdAt = 5, updatedAt = 6\<rparr>],
      nextChatId = 11\<rparr>"

definition sample_req :: request where
  "sample_req =
     \<lparr>user_auth_userId = Some 1, protocol = ''http'', host = ''localhost'',
      baseUrl = ''/chats'', path = ''/'', originalUrl = ''/chats/7'', chat_id = Some 7,
      token = ''signed7'', perPage = Some 2, page = Some 2,
      sortBy = Some (QString ''name''), expiresIn = None,
      base64 = ''data:text/plain;base64,aGVsbG8='', body_name = ''note''\<rparr>"

section \<open>Properties of the controllers\<close>

subsection \<open>Lookups, numbers and queries\<close>

lemma find_same: "List.find (\<lambda>u. u = a) xs = (if a \<in> set xs then Some a else None)"
  by (induction xs) auto

lemma User_findOne_eq:
  "User_findOne db u = (if u \<in> set (users db) then Some u else None)"
  by (simp add: User_findOne_def find_same)











subsection \<open>The list endpoint\<close>





subsection \<open>The Link header\<close>





















subsection \<open>Authentication precedes everything else\<close>

text \<open>
  Claim C7. Each of the seven owner-scoped controllers (create, list, get by id, rename,
  delete, get blob, issue token) answers 403 \<open>Not a valid token\<close> when the resolved user id
  is \<^verbatim>\<open>NaN\<close> or zero, whatever the user table holds, and answers 404
  \<open>User not found\<close> when the id is a non-zero number that the user table does not hold. In
  both cases the database is returned as it was, and the answer depends on nothing else of
  the request or of the chat table: no chat has been looked up, created or changed.
\<close>

theorem auth_checks_first:
  "(user_auth_userId req = None \<or> user_auth_userId req = Some 0 \<longrightarrow>
      postChatController env db req = (message_response 403 ''Not a valid token'', db)
    \<and> getAllChatsController collate db req = (message_response 403 ''Not a valid token'', db)
    \<and> getChatByIdController db req = (message_response 403 ''Not a valid token'', db)
    \<and> patchChatByIdController env db req = (message_response 403 ''Not a valid token'', db)
    \<and> deleteChatByIdController db req = (message_response 403 ''Not a valid token'', db)
    \<and> getChatBlobController db req = (message_response 403 ''Not a valid token'', db)
    \<and> getTokenByIdController env db req = (message_response 403 ''Not a valid token'', db))
  \<and> (user_auth_userId req = Some uid \<and> uid \<noteq> 0 \<and> uid \<notin> set (users db) \<longrightarrow>
      postChatController env db req = (message_response 404 ''User not found'', db)
    \<and> getAllChatsController collate db req = (message_response 404 ''User not found'', db)
    \<and> getChatByIdController db req = (message_response 404 ''User not found'', db)
    \<and> patchChatByIdController env db req = (message_response 404 ''User not found'', db)
    \<and> deleteChatByIdController db req = (message_response 404 ''User not found'', db)
    \<and> getChatBlobController db req = (message_response 404 ''User not found'', db)
    \<and> getTokenByIdController env db req = (message_response 404 ''User not found'', db))"
  by (auto simp: postChatController_def getAllChatsController_def getChatByIdController_def
      patchChatByIdController_def deleteChatByIdController_def getChatBlobController_def
      getTokenByIdController_def User_findOne_eq)

subsection \<open>Deleting a chat\<close>

text \<open>After the delete endpoint has answered 200, no chat has the id it was asked for.\<close>

lemma shared_lookup_cases:
  "filter (\<lambda>c. chatId c = cid) (chats db) = [] \<longleftrightarrow> cid \<notin> chatId ` set (chats db)"
  by (auto simp: filter_empty_conv)

lemma destroy_removes_id:
  "chatId chat \<notin> chatId ` set (chats (destroy db chat))"
  by (auto simp: destroy_def)

lemma delete_ok:
  assumes "deleteChatByIdController db del_req = (message_response 200 ''ok'', db')"
    and "chat_id del_req = Some cid"
  shows "cid \<notin> chatId ` set (chats db')"
proof -
  from assms(1) obtain uid chat where
    f: "Chat_findOne db (chat_id del_req) uid = Inr (Some chat)" and db': "db' = destroy db chat"
    by (auto simp: deleteChatByIdController_def message_response_def message_body_def
        split: option.splits if_splits sum.splits)
  from f assms(2) have "chatId chat = cid"
    by (auto simp: Chat_findOne_def find_Some_iff)
  with destroy_removes_id [of chat db] db' show ?thesis by simp
qed


subsection \<open>Creating a chat from a body without a MIME type\<close>

text \<open>A string without a slash has no match of the MIME pattern.\<close>

lemma match_here_needs_slash: "CHR ''/'' \<notin> set s \<Longrightarrow> match_here s = None"
proof (cases s)
  case Nil
  then show ?thesis by simp
next
  case (Cons c rest)
  assume ns: "CHR ''/'' \<notin> set s"
  have "set (dropWhile word_char rest) \<subseteq> set rest"
    by (simp add: set_dropWhileD subsetI)
  with ns Cons have "CHR ''/'' \<notin> set (dropWhile word_char rest)" by auto
  then show ?thesis
    using Cons by (auto simp: Let_def split: list.splits)
qed

lemma match_mime_needs_slash: "CHR ''/'' \<notin> set s \<Longrightarrow> match_mime s = None"
proof (induction s)
  case Nil
  then show ?case by simp
next
  case (Cons c cs)
  from Cons.prems have "match_here (c # cs) = None" by (rule match_here_needs_slash)
  moreover from Cons have "match_mime cs = None" by simp
  ultimately show ?case by (simp del: match_here.simps)
qed

text \<open>
  Claim C3, as amended. When the user of a create request exists and the \<open>base64\<close> string
  of the body has no match of the MIME pattern, the controller sends no response, so no 400:
  indexing the \<^verbatim>\<open>null\<close> that \<^verbatim>\<open>match\<close> returned raises a TypeError that
  the controller does not catch. No chat is stored.
\<close>

theorem create_without_mime_uncaught:
  assumes "user_auth_userId req = Some uid" "uid \<noteq> 0" "uid \<in> set (users db)"
    and "match_mime (base64 req) = None"
  shows "postChatController env db req =
           (Uncaught (TypeError ''Cannot read properties of null''), db)"
  using assms by (simp add: postChatController_def User_findOne_eq)

text \<open>The sample request with the body \<open>hello\<close>, which has no MIME type.\<close>

theorem create_without_mime_uncaught_witness:
  "user_auth_userId (sample_req\<lparr>base64 := ''hello''\<rparr>) = Some 1
   \<and> (1::int) \<noteq> 0 \<and> 1 \<in> set (users sample_db)
   \<and> match_mime (base64 (sample_req\<lparr>base64 := ''hello''\<rparr>)) = None
   \<and> postChatController sample_env sample_db (sample_req\<lparr>base64 := ''hello''\<rparr>) =
           (Uncaught (TypeError ''Cannot read properties of null''), sample_db)"
proof -
  have h: "user_auth_userId (sample_req\<lparr>base64 := ''hello''\<rparr>) = Some 1"
    "(1::int) \<noteq> 0" "1 \<in> set (users sample_db)"
    "match_mime (base64 (sample_req\<lparr>base64 := ''hello''\<rparr>)) = None"
    by (simp_all add: sample_req_def sample_db_def match_mime_needs_slash)
  from create_without_mime_uncaught [OF h, of sample_env] h show ?thesis by simp
qed

text \<open>
  Claim C3, as stated, fails: for the body \<open>hello\<close> of an existing user the outcome of the
  create controller is an uncaught TypeError, not a response with status 400.
\<close>

theorem create_without_mime_is_not_400:
  "match_mime ''hello'' = None
   \<and> postChatController sample_env sample_db (sample_req\<lparr>base64 := ''hello''\<rparr>) =
           (Uncaught (TypeError ''Cannot read properties of null''), sample_db)"
  by (simp add: postChatController_def sample_req_def sample_db_def User_findOne_def
      word_char_def class_char_def)

subsection \<open>The token-scoped endpoints\<close>

text \<open>
  Claim C10. When the token of a request to the token-scoped blob endpoint verifies and no
  stored chat has the \<open>chatId\<close> of its payload, the endpoint answers 410, not 404: reading
  \<open>mimeType\<close> of the \<^verbatim>\<open>null\<close> that the lookup returned throws inside the
  \<^verbatim>\<open>try\<close> block, and the handler of verification failures sends the message of
  that error with status 410.
\<close>

theorem shared_blob_missing_chat_410:
  assumes "jwt_verify env (token req) (JWT_SECRET env) = Inr cid"
    and "cid \<notin> chatId ` set (chats db)"
  shows "getBlobWithJwtController env db req =
           (message_response 410 ''Cannot read properties of null'', db)"
proof -
  from assms(2) have "Chat_findByPk db cid = None"
    by (auto simp: Chat_findByPk_def find_None_iff)
  with assms(1) show ?thesis
    by (simp add: getBlobWithJwtController_def getBlobWithJwt_try_def error_message_def)
qed

text \<open>The sample token \<open>signed99\<close> verifies, and the sample database has no chat \<open>99\<close>.\<close>

theorem shared_blob_missing_chat_410_witness:
  "jwt_verify sample_env (token (sample_req\<lparr>token := ''signed99''\<rparr>)) (JWT_SECRET sample_env) = Inr 99
   \<and> 99 \<notin> chatId ` set (chats sample_db)
   \<and> getBlobWithJwtController sample_env sample_db (sample_req\<lparr>token := ''signed99''\<rparr>) =
        (Sent \<lparr>status = 410, headers = [],
           body = Json (JObject [(''message'', JString ''Cannot read properties of null'')])\<rparr>,
         sample_db)"
proof -
  have h: "jwt_verify sample_env (token (sample_req\<lparr>token := ''signed99''\<rparr>)) (JWT_SECRET sample_env) = Inr 99"
    "99 \<notin> chatId ` set (chats sample_db)"
    by (simp_all add: sample_env_def sample_req_def sample_verify_def sample_db_def)
  from shared_blob_missing_chat_410 [OF h] h show ?thesis
    by (simp add: message_response_def message_body_def)
qed

text \<open>
  Claim C9, as amended. The token-scoped metadata endpoint always sends a response, with
  status 200, 404 or 410, and leaves the database as it was: 410 exactly when the token does
  not verify; 404 exactly when the token verifies and no stored chat has the \<open>chatId\<close> of
  its payload; 200, with the metadata of a stored chat of that \<open>chatId\<close>, exactly when there
  is one. After the delete endpoint has deleted the chat a token refers to, the endpoint
  answers that token with 404 \<open>Chat not found\<close>.
\<close>

theorem shared_metadata_outcomes:
  "(\<exists>r. getChatWithJwtController env db req = (Sent r, db)
      \<and> status r \<in> {200, 404, 410}
      \<and> (status r = 410) = isl (jwt_verify env (token req) (JWT_SECRET env))
      \<and> (status r = 404) =
          (\<exists>cid. jwt_verify env (token req) (JWT_SECRET env) = Inr cid
             \<and> cid \<notin> chatId ` set (chats db))
      \<and> (status r = 200) =
          (\<exists>chat. chat \<in> set (chats db)
             \<and> jwt_verify env (token req) (JWT_SECRET env) = Inr (chatId chat)
             \<and> r = \<lparr>status = 200, headers = [],
                     body = Json (shared_chat_json (url_blobUrl req) chat)\<rparr>))
   \<and> (deleteChatByIdController db del_req = (message_response 200 ''ok'', db')
        \<and> chat_id del_req = Some cid
        \<and> jwt_verify env (token req) (JWT_SECRET env) = Inr cid
      \<longrightarrow> getChatWithJwtController env db' req = (message_response 404 ''Chat not found'', db'))"
proof (rule conjI)
  show "\<exists>r. getChatWithJwtController env db req = (Sent r, db)
      \<and> status r \<in> {200, 404, 410}
      \<and> (status r = 410) = isl (jwt_verify env (token req) (JWT_SECRET env))
      \<and> (status r = 404) =
          (\<exists>cid. jwt_verify env (token req) (JWT_SECRET env) = Inr cid
             \<and> cid \<notin> chatId ` set (chats db))
      \<and> (status r = 200) =
          (\<exists>chat. chat \<in> set (chats db)
             \<and> jwt_verify env (token req) (JWT_SECRET env) = Inr (chatId chat)
             \<and> r = \<lparr>status = 200, headers = [],
                     body = Json (shared_chat_json (url_blobUrl req) chat)\<rparr>)"
  proof (cases "jwt_verify env (token req) (JWT_SECRET env)")
    case (Inl msg)
    then show ?thesis
      by (simp add: getChatWithJwtController_def getChatWithJwt_try_def message_response_def
          message_body_def)
  next
    case (Inr cid)
    show ?thesis
    proof (cases "filter (\<lambda>c. chatId c = cid) (chats db)")
      case Nil
      then have "cid \<notin> chatId ` set (chats db)" by (simp add: shared_lookup_cases)
      with Inr Nil show ?thesis
        by (auto simp: getChatWithJwtController_def getChatWithJwt_try_def message_body_def)
    next
      case (Cons chat0 rest)
      then have "chat0 \<in> set (filter (\<lambda>c. chatId c = cid) (chats db))" by simp
      then have "chat0 \<in> set (chats db)" "chatId chat0 = cid" by simp_all
      with Inr Cons show ?thesis
        by (auto simp: getChatWithJwtController_def getChatWithJwt_try_def)
    qed
  qed
next
  show "deleteChatByIdController db del_req = (message_response 200 ''ok'', db')
        \<and> chat_id del_req = Some cid
        \<and> jwt_verify env (token req) (JWT_SECRET env) = Inr cid
      \<longrightarrow> getChatWithJwtController env db' req = (message_response 404 ''Chat not found'', db')"
  proof (intro impI, elim conjE)
    assume d: "deleteChatByIdController db del_req = (message_response 200 ''ok'', db')"
      and c: "chat_id del_req = Some cid"
      and v: "jwt_verify env (token req) (JWT_SECRET env) = Inr cid"
    from delete_ok [OF d c] have "filter (\<lambda>c. chatId c = cid) (chats db') = []"
      by (simp add: shared_lookup_cases)
    with v show "getChatWithJwtController env db' req = (message_response 404 ''Chat not found'', db')"
      by (simp add: getChatWithJwtController_def getChatWithJwt_try_def message_response_def)
  qed
qed

subsection \<open>The theorems on the sample installation\<close>

text \<open>
  The sample request without a resolved user id is answered 403, and the one of user \<open>5\<close>,
  who is not in the sample user table, 404.
\<close>

theorem auth_checks_first_witness:
  "(user_auth_userId (sample_req\<lparr>user_auth_userId := None\<rparr>) = None
    \<or> user_auth_userId (sample_req\<lparr>user_auth_userId := None\<rparr>) = Some 0)
   \<and> postChatController sample_env sample_db (sample_req\<lparr>user_auth_userId := None\<rparr>)
       = (message_response 403 ''Not a valid token'', sample_db)
   \<and> getTokenByIdController sample_env sample_db (sample_req\<lparr>user_auth_userId := None\<rparr>)
       = (message_response 403 ''Not a valid token'', sample_db)
   \<and> user_auth_userId (sample_req\<lparr>user_auth_userId := Some 5\<rparr>) = Some 5
   \<and> (5::int) \<noteq> 0 \<and> 5 \<notin> set (users sample_db)
   \<and> postChatController sample_env sample_db (sample_req\<lparr>user_auth_userId := Some 5\<rparr>)
       = (message_response 404 ''User not found'', sample_db)
   \<and> getTokenByIdController sample_env sample_db (sample_req\<lparr>user_auth_userId := Some 5\<rparr>)
       = (message_response 404 ''User not found'', sample_db)"
proof -
  have a: "user_auth_userId (sample_req\<lparr>user_auth_userId := None\<rparr>) = None
    \<or> user_auth_userId (sample_req\<lparr>user_auth_userId := None\<rparr>) = Some 0"
    by simp
  have b: "user_auth_userId (sample_req\<lparr>user_auth_userId := Some 5\<rparr>) = Some 5
    \<and> (5::int) \<noteq> 0 \<and> 5 \<notin> set (users sample_db)"
    by (simp add: sample_db_def)
  from a b
    auth_checks_first [of "sample_req\<lparr>user_auth_userId := None\<rparr>" sample_env sample_db
      sample_collate 5]
    auth_checks_first [of "sample_req\<lparr>user_auth_userId := Some 5\<rparr>" sample_env sample_db
      sample_collate 5]
  show ?thesis by blast
qed

text \<open>
  Claim C9, as stated, fails: the sample token \<open>signed99\<close> verifies, the sample database
  has no chat \<open>99\<close>, and the endpoint answers 404, which is neither 200 nor 410.
\<close>

theorem shared_metadata_missing_chat_404:
  "jwt_verify sample_env (token (sample_req\<lparr>token := ''signed99''\<rparr>)) (JWT_SECRET sample_env)
     = Inr 99
   \<and> getChatWithJwtController sample_env sample_db (sample_req\<lparr>token := ''signed99''\<rparr>) =
       (Sent \<lparr>status = 404, headers = [],
          body = Json (JObject [(''message'', JString ''Chat not found'')])\<rparr>, sample_db)"
  by (simp add: getChatWithJwtController_def getChatWithJwt_try_def sample_env_def
      sample_verify_def sample_req_def sample_db_def message_body_def)

text \<open>Deleting chat \<open>7\<close> of the sample database, and then presenting the token for it.\<close>

lemma sample_delete:
  "deleteChatByIdController sample_db sample_req =
     (message_response 200 ''ok'', snd (deleteChatByIdController sample_db sample_req))"
  by (simp add: deleteChatByIdController_def sample_req_def sample_db_def User_findOne_def
      Chat_findOne_def)

theorem shared_metadata_outcomes_witness:
  "deleteChatByIdController sample_db sample_req =
     (message_response 200 ''ok'', snd (deleteChatByIdController sample_db sample_req))
   \<and> chat_id sample_req = Some 7
   \<and> jwt_verify sample_env (token sample_req) (JWT_SECRET sample_env) = Inr 7
   \<and> getChatWithJwtController sample_env (snd (deleteChatByIdController sample_db sample_req))
        sample_req
      = (message_response 404 ''Chat not found'',
         snd (deleteChatByIdController sample_db sample_req))"
proof -
  have h: "deleteChatByIdController sample_db sample_req =
       (message_response 200 ''ok'', snd (deleteChatByIdController sample_db sample_req))
     \<and> chat_id sample_req = Some 7
     \<and> jwt_verify sample_env (token sample_req) (JWT_SECRET sample_env) = Inr 7"
    using sample_delete by (simp add: sample_req_def sample_env_def sample_verify_def)
  from shared_metadata_outcomes [of sample_env sample_db sample_req sample_req
      "snd (deleteChatByIdController sample_db sample_req)" 7] h
  show ?thesis by blast
qed

subsection \<open>Issuing a share token\<close>

text \<open>
  Claim C1 does not hold of the code. The sample database has no chat \<open>99\<close>, and the
  request of user \<open>1\<close> for a token for chat \<open>99\<close> is answered 200 with a token in the
  \<open>chat-token\<close> header: the controller negates the promise that \<open>hasChat\<close> returns, not
  its awaited value, and the negation of a promise is false.
\<close>

theorem token_issued_for_missing_chat:
  "99 \<notin> chatId ` set (chats sample_db)
   \<and> getTokenByIdController sample_env sample_db (sample_req\<lparr>chat_id := Some 99\<rparr>) =
       (Sent \<lparr>status = 200, headers = [(''chat-token'', ''signed99'')],
          body = Json (JObject [(''message'', JString ''ok'')])\<rparr>, sample_db)"
  by (simp add: getTokenByIdController_def sample_req_def sample_db_def User_findOne_def
      hasChat_def expiry_of_def sample_env_def sample_sign_def)

text \<open>For no database and no request does the token controller answer \<open>Chat not found\<close>.\<close>

lemma getToken_never_chat_not_found:
  "fst (getTokenByIdController env db req) \<noteq> message_response 404 ''Chat not found''"
  by (auto simp: getTokenByIdController_def hasChat_def message_response_def message_body_def
      split: option.splits qvalue.splits)

subsection \<open>Getting a chat by id\<close>

text \<open>
  Claim C2 does not hold of the code. Chat \<open>7\<close> of the sample database belongs to user
  \<open>1\<close>, and the request of user \<open>1\<close> for chat \<open>7\<close> is not answered 200 with the metadata:
  the controller reads \<^verbatim>\<open>chat[0].chatId\<close> of the instance that \<^verbatim>\<open>findOne\<close>
  returned, \<^verbatim>\<open>chat[0]\<close> is \<^verbatim>\<open>undefined\<close>, and the TypeError is not caught.
\<close>

theorem get_by_id_owned_chat_throws:
  "Chat_findOne sample_db (chat_id sample_req) 1 =
     Inr (Some \<lparr>chatId = 7, userId = 1, name = ''beta'', mimeType = ''text/plain'',
           data = [104, 105], createdAt = 30, updatedAt = 31\<rparr>)
   \<and> getChatByIdController sample_db sample_req =
       (Uncaught (TypeError ''Cannot read properties of undefined''), sample_db)"
  by (simp add: getChatByIdController_def sample_req_def sample_db_def User_findOne_def
      Chat_findOne_def instance_index_def)

text \<open>
  The controller never answers 200; when the chat does not exist or is not the user's, it
  answers 404 as the claim says.
\<close>

lemma getChatById_never_200:
  "fst (getChatByIdController db req) = Sent r \<Longrightarrow> status r \<noteq> 200"
  by (auto simp: getChatByIdController_def instance_index_def message_response_def
      message_body_def split: option.splits if_splits sum.splits)

lemma getChatById_not_found:
  assumes "user_auth_userId req = Some uid" "uid \<noteq> 0" "uid \<in> set (users db)"
    and "Chat_findOne db (chat_id req) uid = Inr None"
  shows "getChatByIdController db req = (message_response 404 ''Chat not found'', db)"
  using assms by (simp add: getChatByIdController_def User_findOne_eq)

subsection \<open>The name in the metadata\<close>

text \<open>
  The metadata object of the token-scoped endpoint has no \<open>name\<close>; that of the owner-scoped
  endpoints has the name of the chat.
\<close>

lemma shared_chat_json_omits_name: "''name'' \<notin> set (json_keys (shared_chat_json url chat))"
  by (simp add: shared_chat_json_def)

lemma chat_json_includes_name:
  "(''name'', JString (name chat)) \<in> set (case chat_json url chat of JObject kvs \<Rightarrow> kvs | _ \<Rightarrow> [])"
  by (simp add: chat_json_def)

text \<open>
  Claim C8 does not hold of the code. For chat \<open>7\<close> of the sample database the token-scoped
  endpoint answers with metadata without \<open>name\<close>, as the claim says, but the owner-scoped
  get-by-id endpoint sends no metadata at all, with or without \<open>name\<close>: it throws.
\<close>

theorem owner_get_by_id_sends_no_name:
  "getChatWithJwtController sample_env sample_db sample_req =
     (Sent \<lparr>status = 200, headers = [],
        body = Json (JObject
          [(''blobUrl'', JString ''http://localhost/chats/7/blob''), (''chatId'', JNumber 7),
           (''userId'', JNumber 1), (''createdAt'', JDate 30), (''updatedAt'', JDate 31)])\<rparr>,
      sample_db)
   \<and> fst (getChatByIdController sample_db sample_req) =
       Uncaught (TypeError ''Cannot read properties of undefined'')"
  by (simp add: getChatWithJwtController_def getChatWithJwt_try_def sample_env_def
      sample_verify_def sample_req_def sample_db_def shared_chat_json_def url_blobUrl_def
      getChatByIdController_def User_findOne_def Chat_findOne_def instance_index_def)


subsection \<open>List requests beyond the exact range\<close>






subsection \<open>List requests on the sample installation\<close>






text \<open>
  The first page of the sample, 2 rows of 3, for each sort column: \<open>alpha\<close> before
  \<open>beta\<close> by name, 10 before 20 by \<open>createdAt\<close>, 40 before 35 by \<open>updatedAt\<close>.
\<close>

lemma sample_first_page_by_name:
  \<open>fst (getAllChatsController sample_collate sample_db (sample_req\<lparr>page := Some 1\<rparr>)) =
     Sent \<lparr>status = 200,
        headers = [(''Link'', ''<http://localhost/chats/7?page=2&per_page=2>; rel="next"'')],
        body = Json (JArray
          [JObject [(''blobUrl'', JString ''http://localhost/chats/8/blob''),
                    (''chatId'', JNumber 8), (''userId'', JNumber 1),
                    (''name'', JString ''alpha''), (''createdAt'', JDate 20),
                    (''updatedAt'', JDate 40)],
           JObject [(''blobUrl'', JString ''http://localhost/chats/7/blob''),
                    (''chatId'', JNumber 7), (''userId'', JNumber 1),
                    (''name'', JString ''beta''), (''createdAt'', JDate 30),
                    (''updatedAt'', JDate 31)]])\<rparr>\<close>
  by (simp add: getAllChatsController_def sample_req_def sample_db_def User_findOne_def
      ChatQuery_def order_by_def limit_offset_def sample_collate_def countQuery_def links_def
      prev_link_def next_link_def topMostUrl_def user_chats_def round_double_def
      totalPages_def chat_json_def path_blobUrl_def show_int_def show_nat.simps digit_char_def)

lemma sample_first_page_by_createdAt:
  \<open>fst (getAllChatsController sample_collate sample_db
          (sample_req\<lparr>page := Some 1, sortBy := Some (QString ''createdAt'')\<rparr>)) =
     Sent \<lparr>status = 200,
        headers = [(''Link'', ''<http://localhost/chats/7?page=2&per_page=2>; rel="next"'')],
        body = Json (JArray
          [JObject [(''blobUrl'', JString ''http://localhost/chats/9/blob''),
                    (''chatId'', JNumber 9), (''userId'', JNumber 1),
                    (''name'', JString ''gamma''), (''createdAt'', JDate 10),
                    (''updatedAt'', JDate 35)],
           JObject [(''blobUrl'', JString ''http://localhost/chats/8/blob''),
                    (''chatId'', JNumber 8), (''userId'', JNumber 1),
                    (''name'', JString ''alpha''), (''createdAt'', JDate 20),
                    (''updatedAt'', JDate 40)]])\<rparr>\<close>
  by (simp add: getAllChatsController_def sample_req_def sample_db_def User_findOne_def
      ChatQuery_def order_by_def limit_offset_def sample_collate_def countQuery_def links_def
      prev_link_def next_link_def topMostUrl_def user_chats_def round_double_def
      totalPages_def chat_json_def path_blobUrl_def show_int_def show_nat.simps digit_char_def)

lemma sample_first_page_by_updatedAt:
  \<open>fst (getAllChatsController sample_collate sample_db
          (sample_req\<lparr>page := Some 1, sortBy := Some (QString ''updatedAt'')\<rparr>)) =
     Sent \<lparr>status = 200,
        headers = [(''Link'', ''<http://localhost/chats/7?page=2&per_page=2>; rel="next"'')],
        body = Json (JArray
          [JObject [(''blobUrl'', JString ''http://localhost/chats/8/blob''),
                    (''chatId'', JNumber 8), (''userId'', JNumber 1),
                    (''name'', JString ''alpha''), (''createdAt'', JDate 20),
                    (''updatedAt'', JDate 40)],
           JObject [(''blobUrl'', JString ''http://localhost/chats/9/blob''),
                    (''chatId'', JNumber 9), (''userId'', JNumber 1),
                    (''name'', JString ''gamma''), (''createdAt'', JDate 10),
                    (''updatedAt'', JDate 35)]])\<rparr>\<close>
  by (simp add: getAllChatsController_def sample_req_def sample_db_def User_findOne_def
      ChatQuery_def order_by_def limit_offset_def sample_collate_def countQuery_def links_def
      prev_link_def next_link_def topMostUrl_def user_chats_def round_double_def
      totalPages_def chat_json_def path_blobUrl_def show_int_def show_nat.simps digit_char_def)




text \<open>
  With one row a page, page 2 of the sample is a middle page: the header has both entries.
  The first page has the entry for the next page only, the last page that for the previous
  page only.
\<close>

lemma sample_middle_page_header:
  \<open>fst (getAllChatsController sample_collate sample_db (sample_req\<lparr>perPage := Some 1\<rparr>)) =
     Sent \<lparr>status = 200,
        headers = [(''Link'',
          ''<http://localhost/chats/7?page=1&per_page=1>; rel="prev", <http://localhost/chats/7?page=3&per_page=1>; rel="next"'')],
        body = Json (JArray
          [JObject [(''blobUrl'', JString ''http://localhost/chats/7/blob''),
                    (''chatId'', JNumber 7), (''userId'', JNumber 1),
                    (''name'', JString ''beta''), (''createdAt'', JDate 30),
                    (''updatedAt'', JDate 31)]])\<rparr>\<close>
  by (simp add: getAllChatsController_def sample_req_def sample_db_def User_findOne_def
      ChatQuery_def order_by_def limit_offset_def sample_collate_def countQuery_def links_def
      prev_link_def next_link_def topMostUrl_def user_chats_def round_double_def
      totalPages_def chat_json_def path_blobUrl_def show_int_def show_nat.simps digit_char_def)



end
